theory Spec2Isabelle
  imports Complex_Main "HOL-Library.Word"
begin

unbundle bit_operations_syntax

section \<open>Verdicts, metrics, sessions (systemeval/core/evaluation.py)\<close>

text \<open>
  Python strings are modelled as \<open>string\<close>, with one \<open>char\<close> per code point; the
  model therefore covers the code points 0..255. Python's unbounded \<open>int\<close> is \<open>int\<close>.
  Wall-clock readings and durations, floats in the source, are exact rationals here.
\<close>

datatype Verdict = PASS | FAIL | ERROR

text \<open>\<open>Verdict\<close> is a \<open>str\<close> enum; \<open>.value\<close> is the member's string.\<close>

fun verdict_value :: "Verdict \<Rightarrow> string" where
  "verdict_value PASS = ''PASS''"
| "verdict_value FAIL = ''FAIL''"
| "verdict_value ERROR = ''ERROR''"

text \<open>
  \<open>MetricResult.value\<close> and \<open>expected\<close> are typed \<open>Any\<close>. \<open>None\<close>, booleans, integers
  and strings are values of their own, with the \<open>str()\<close> Python gives them. A value of
  any other type (a float, a list, a dictionary, an instance of a class) is
  \<open>PObject n s\<close>: the number \<open>n\<close> tells it from the other values, and \<open>s\<close> is what
  \<open>str()\<close> returns for it, which is all the modelled code reads of a value.
\<close>

datatype pyval = PNone | PBool bool | PInt int | PStr string | PObject nat string

record MetricResult =
  m_name :: string
  m_value :: pyval
  m_expected :: pyval
  m_passed :: bool
  m_message :: "string option"
  m_severity :: string

record SessionResult =
  session_id :: string
  session_name :: string
  metrics :: "MetricResult list"
  s_started_at :: "string option"
  s_completed_at :: "string option"
  s_duration_seconds :: rat
  s_stdout :: string
  s_stderr :: string

text \<open>\<open>SessionResult.verdict\<close>: \<open>not self.metrics\<close>, then \<open>all(m.passed ...)\<close>.\<close>

definition session_verdict :: "SessionResult \<Rightarrow> Verdict" where
  "session_verdict s =
     (if metrics s = [] then ERROR
      else if list_all m_passed (metrics s) then PASS
      else FAIL)"

record EvaluationMetadata =
  evaluation_id :: string
  run_hash :: string
  timestamp_utc :: string
  md_duration_seconds :: rat
  environment :: "(string \<times> string) list"
  schema_version :: string
  adapter_type :: string
  category :: "string option"
  project_name :: "string option"
  md_command :: "string option"

record EvaluationResult =
  metadata :: EvaluationMetadata
  sessions :: "SessionResult list"
  diagnostics :: "string list"
  warnings :: "string list"
  start_time :: rat
  finalized :: bool

text \<open>\<open>EvaluationResult.verdict\<close>: the same cascade one level up.\<close>

definition evaluation_verdict :: "EvaluationResult \<Rightarrow> Verdict" where
  "evaluation_verdict r =
     (if sessions r = [] then ERROR
      else if list_ex (\<lambda>s. session_verdict s = ERROR) (sessions r) then ERROR
      else if list_ex (\<lambda>s. session_verdict s = FAIL) (sessions r) then FAIL
      else PASS)"

definition exit_code_of :: "EvaluationResult \<Rightarrow> int" where
  "exit_code_of r = (case evaluation_verdict r of PASS \<Rightarrow> 0 | FAIL \<Rightarrow> 1 | ERROR \<Rightarrow> 2)"

text \<open>The factory functions of evaluation.py; identifiers and clock readings are inputs.\<close>

definition metric :: "string \<Rightarrow> pyval \<Rightarrow> pyval \<Rightarrow> bool \<Rightarrow> MetricResult" where
  "metric n v e cond =
     \<lparr>m_name = n, m_value = v, m_expected = e, m_passed = cond,
      m_message = None, m_severity = ''error''\<rparr>"

definition create_session :: "string \<Rightarrow> string \<Rightarrow> string \<Rightarrow> SessionResult" where
  "create_session n sid now_iso =
     \<lparr>session_id = sid, session_name = n, metrics = [],
      s_started_at = Some now_iso, s_completed_at = None, s_duration_seconds = 0,
      s_stdout = [], s_stderr = []\<rparr>"

definition create_evaluation ::
  "string \<Rightarrow> string option \<Rightarrow> string option \<Rightarrow> string \<Rightarrow> string \<Rightarrow> (string \<times> string) list
     \<Rightarrow> rat \<Rightarrow> EvaluationResult" where
  "create_evaluation adapter cat proj uuid now_iso env now =
     \<lparr>metadata =
        \<lparr>evaluation_id = uuid, run_hash = [], timestamp_utc = now_iso,
         md_duration_seconds = 0, environment = env, schema_version = ''1.0.0'',
         adapter_type = adapter, category = cat, project_name = proj, md_command = None\<rparr>,
      sessions = [], diagnostics = [], warnings = [], start_time = now, finalized = False\<rparr>"

section \<open>TestResult (systemeval/types.py)\<close>

record TestResult =
  passed :: int
  failed :: int
  errors :: int
  skipped :: int
  duration :: rat
  total :: int
  exit_code :: int
  parsing_warning :: "string option"
  parsed_from :: "string option"

text \<open>
  The dataclass constructor followed by \<open>__post_init__\<close>: \<open>total\<close> is computed from the
  four counts when it is not given.
\<close>

definition mk_TestResult ::
  "int \<Rightarrow> int \<Rightarrow> int \<Rightarrow> int \<Rightarrow> rat \<Rightarrow> int option \<Rightarrow> int \<Rightarrow> string option \<Rightarrow> string option
     \<Rightarrow> TestResult" where
  "mk_TestResult p f e s d tot ec pw pf =
     \<lparr>passed = p, failed = f, errors = e, skipped = s, duration = d,
      total = (case tot of None \<Rightarrow> p + f + e + s | Some t \<Rightarrow> t),
      exit_code = ec, parsing_warning = pw, parsed_from = pf\<rparr>"

text \<open>\<open>TestResult.verdict\<close>, branch by branch.\<close>

definition test_verdict :: "TestResult \<Rightarrow> Verdict" where
  "test_verdict t =
     (if exit_code t = 2 then ERROR
      else if total t = 0 then ERROR
      else if parsed_from t = Some ''fallback'' \<and> exit_code t \<noteq> 0 then ERROR
      else if failed t > 0 \<or> errors t > 0 then FAIL
      else PASS)"

section \<open>Regular expressions, as far as the parser uses them\<close>

text \<open>
  \<open>parse_test_results\<close> calls \<open>re.search\<close> with eight patterns. They are built from
  literals (case-sensitive, or case-insensitive under \<open>re.IGNORECASE\<close>), a repeated
  character class (\<open>\d+\<close>, \<open>[\d.]+\<close>, \<open>\s*\<close>, the lazy \<open>.*?\<close>), an optional character
  (\<open>s?\<close>), capturing groups and concatenation. The matcher below is the backtracking
  matcher of Python's \<open>re\<close> for this fragment, in continuation-passing style: a
  continuation receives the text just matched, the rest of the input and the groups
  captured so far, and the alternatives are tried in priority order (a greedy
  repetition tries the longest run first, a lazy one the shortest).
\<close>

text \<open>The exceptions the modelled code raises, with their messages.\<close>

datatype py_error = ValueError string | RuntimeError string

type_synonym caps = "(nat \<times> string) list"

datatype regex =
    Lit string
  | LitI string
  | Rep bool nat "char \<Rightarrow> bool"
  | Opt char
  | Grp nat regex
  | Seq regex regex

definition is_digit :: "char \<Rightarrow> bool" where
  "is_digit c = (c \<in> set ''0123456789'')"

definition is_dot_or_digit :: "char \<Rightarrow> bool" where
  "is_dot_or_digit c = (is_digit c \<or> c = CHR ''.'')"

definition not_newline :: "char \<Rightarrow> bool" where
  "not_newline c = (c \<noteq> CHR 0x0A)"

definition is_space :: "char \<Rightarrow> bool" where
  "is_space c = ((of_char c :: nat) \<in> set [9, 10, 11, 12, 13, 28, 29, 30, 31, 32, 133, 160])"

definition ascii_lower :: "char \<Rightarrow> char" where
  "ascii_lower c =
     (let n = (of_char c :: nat) in if 65 \<le> n \<and> n \<le> 90 then char_of (n + 32) else c)"

fun strip_lit :: "(char \<Rightarrow> char \<Rightarrow> bool) \<Rightarrow> string \<Rightarrow> string \<Rightarrow> (string \<times> string) option" where
  "strip_lit eq [] s = Some ([], s)"
| "strip_lit eq (p # ps) [] = None"
| "strip_lit eq (p # ps) (x # xs) =
     (if eq x p then map_option (\<lambda>(m, r). (x # m, r)) (strip_lit eq ps xs) else None)"

fun rep_greedy ::
  "(char \<Rightarrow> bool) \<Rightarrow> nat \<Rightarrow> (string \<Rightarrow> string \<Rightarrow> caps \<Rightarrow> 'r option) \<Rightarrow> string \<Rightarrow> string \<Rightarrow> caps
     \<Rightarrow> 'r option" where
  "rep_greedy p n k acc [] c = (if n = 0 then k acc [] c else None)"
| "rep_greedy p n k acc (x # xs) c =
     (if p x then
        (case rep_greedy p (n - 1) k (acc @ [x]) xs c of
           Some r \<Rightarrow> Some r
         | None \<Rightarrow> if n = 0 then k acc (x # xs) c else None)
      else if n = 0 then k acc (x # xs) c else None)"

fun rep_lazy ::
  "(char \<Rightarrow> bool) \<Rightarrow> nat \<Rightarrow> (string \<Rightarrow> string \<Rightarrow> caps \<Rightarrow> 'r option) \<Rightarrow> string \<Rightarrow> string \<Rightarrow> caps
     \<Rightarrow> 'r option" where
  "rep_lazy p n k acc [] c = (if n = 0 then k acc [] c else None)"
| "rep_lazy p n k acc (x # xs) c =
     (if n = 0 then
        (case k acc (x # xs) c of
           Some r \<Rightarrow> Some r
         | None \<Rightarrow> if p x then rep_lazy p 0 k (acc @ [x]) xs c else None)
      else if p x then rep_lazy p (n - 1) k (acc @ [x]) xs c else None)"

primrec rmatch ::
  "regex \<Rightarrow> (string \<Rightarrow> string \<Rightarrow> caps \<Rightarrow> 'r option) \<Rightarrow> string \<Rightarrow> caps \<Rightarrow> 'r option" where
  "rmatch (Lit l) k s c =
     (case strip_lit (=) l s of None \<Rightarrow> None | Some (m, rest) \<Rightarrow> k m rest c)"
| "rmatch (LitI l) k s c =
     (case strip_lit (\<lambda>x p. ascii_lower x = ascii_lower p) l s of
        None \<Rightarrow> None | Some (m, rest) \<Rightarrow> k m rest c)"
| "rmatch (Rep greedy n p) k s c =
     (if greedy then rep_greedy p n k [] s c else rep_lazy p n k [] s c)"
| "rmatch (Opt x) k s c =
     (case s of
        [] \<Rightarrow> k [] [] c
      | y # ys \<Rightarrow>
          if y = x then (case k [y] ys c of Some r \<Rightarrow> Some r | None \<Rightarrow> k [] s c)
          else k [] s c)"
| "rmatch (Grp n r) k s c = rmatch r (\<lambda>u s' c'. k u s' ((n, u) # c')) s c"
| "rmatch (Seq a b) k s c = rmatch a (\<lambda>u s' c'. rmatch b (\<lambda>v. k (u @ v)) s' c') s c"

text \<open>
  A match attempt at one position; group 0 is the whole match. \<open>re.search\<close> tries the
  positions from left to right, the end of the input included, and returns the first
  match.
\<close>

definition match_here :: "regex \<Rightarrow> string \<Rightarrow> caps option" where
  "match_here r s = rmatch r (\<lambda>u rest c. Some ((0, u) # c)) s []"

fun re_search :: "regex \<Rightarrow> string \<Rightarrow> caps option" where
  "re_search r [] = match_here r []"
| "re_search r (x # xs) =
     (case match_here r (x # xs) of Some c \<Rightarrow> Some c | None \<Rightarrow> re_search r xs)"

subsection \<open>The patterns of \<open>parse_test_results\<close>\<close>

text \<open>
  In a \<open>str\<close> pattern \<open>\d\<close> is a Unicode decimal digit and \<open>\s\<close> Unicode white space;
  among the code points 0..255 these are \<open>0\<close>..\<open>9\<close> and the twelve code points of
  \<open>is_space\<close>. The dot matches everything but a line feed. Under \<open>re.IGNORECASE\<close> an
  ASCII letter of the pattern matches its other case and, below 256, nothing else.
\<close>

definition seqs :: "regex list \<Rightarrow> regex" where
  "seqs rs = foldr Seq rs (Lit [])"

definition digits1 :: regex where
  "digits1 = Rep True 1 is_digit"

text \<open>\<^verbatim>\<open>(\d+) passed.*?(\d+) failed.*?(\d+) error.*?in ([\d.]+)s\<close>, with \<open>re.IGNORECASE\<close>\<close>

definition pytest_re :: regex where
  "pytest_re = seqs
     [Grp 1 digits1, LitI '' passed'', Rep False 0 not_newline,
      Grp 2 digits1, LitI '' failed'', Rep False 0 not_newline,
      Grp 3 digits1, LitI '' error'', Rep False 0 not_newline,
      LitI ''in '', Grp 4 (Rep True 1 is_dot_or_digit), LitI ''s'']"

text \<open>
  \<^verbatim>\<open>(\d+) passed\<close>, \<^verbatim>\<open>(\d+) failed\<close>, \<^verbatim>\<open>(\d+) errors?\<close>, \<^verbatim>\<open>(\d+) skipped\<close>,
  \<^verbatim>\<open>in ([\d.]+)s\<close>
\<close>

definition passed_re :: regex where
  "passed_re = seqs [Grp 1 digits1, Lit '' passed'']"

definition failed_re :: regex where
  "failed_re = seqs [Grp 1 digits1, Lit '' failed'']"

definition errors_re :: regex where
  "errors_re = seqs [Grp 1 digits1, Lit '' error'', Opt CHR ''s'']"

definition skipped_re :: regex where
  "skipped_re = seqs [Grp 1 digits1, Lit '' skipped'']"

definition duration_re :: regex where
  "duration_re = seqs [Lit ''in '', Grp 1 (Rep True 1 is_dot_or_digit), Lit ''s'']"

text \<open>\<^verbatim>\<open>Tests:\s*(\d+) passed,\s*(\d+) failed,\s*(\d+) total\<close>\<close>

definition jest_re :: regex where
  "jest_re = seqs
     [Lit ''Tests:'', Rep True 0 is_space, Grp 1 digits1, Lit '' passed,'',
      Rep True 0 is_space, Grp 2 digits1, Lit '' failed,'',
      Rep True 0 is_space, Grp 3 digits1, Lit '' total'']"

text \<open>\<^verbatim>\<open>(\d+) passed.*?\(([\d.]+)s\)\<close>\<close>

definition playwright_re :: regex where
  "playwright_re = seqs
     [Grp 1 digits1, Lit '' passed'', Rep False 0 not_newline,
      Lit ''('', Grp 2 (Rep True 1 is_dot_or_digit), Lit ''s)'']"

subsection \<open>Conversions\<close>

text \<open>
  \<open>match.group(n)\<close>; \<open>int()\<close> of a run of digits; \<open>float()\<close> of a run of digits and
  dots, which raises \<open>ValueError\<close> unless the run has one dot at most and a digit.
  The value of \<open>float()\<close> is the exact decimal here (Python rounds it to a double).
\<close>

definition group :: "caps \<Rightarrow> nat \<Rightarrow> string" where
  "group c n = (case map_of c n of Some s \<Rightarrow> s | None \<Rightarrow> [])"

definition digit_val :: "char \<Rightarrow> int" where
  "digit_val c = int (of_char c) - 48"

definition py_int :: "string \<Rightarrow> int" where
  "py_int s = foldl (\<lambda>a c. 10 * a + digit_val c) 0 s"

definition py_float :: "string \<Rightarrow> py_error + rat" where
  "py_float s =
     (let ip = takeWhile is_digit s; r = dropWhile is_digit s in
      if r = [] then (if ip = [] then Inl (ValueError s) else Inr (of_int (py_int ip)))
      else if hd r = CHR ''.'' \<and> list_all is_digit (tl r) \<and> (ip \<noteq> [] \<or> tl r \<noteq> [])
        then Inr (of_int (py_int ip) + of_int (py_int (tl r)) / 10 ^ length (tl r))
      else Inl (ValueError s))"

subsection \<open>\<open>TestExecutor.parse_test_results\<close>\<close>

text \<open>The five local variables of the function.\<close>

record counts =
  c_passed :: int
  c_failed :: int
  c_errors :: int
  c_skipped :: int
  c_duration :: rat

text \<open>
  The pytest summary pattern; when it does not match, the five simpler patterns, each
  on its own.
\<close>

definition parse_pytest :: "string \<Rightarrow> counts \<Rightarrow> py_error + counts" where
  "parse_pytest output v =
     (case re_search pytest_re output of
        Some m \<Rightarrow>
          (case py_float (group m 4) of
             Inl e \<Rightarrow> Inl e
           | Inr d \<Rightarrow>
               Inr (v\<lparr>c_passed := py_int (group m 1), c_failed := py_int (group m 2),
                      c_errors := py_int (group m 3), c_duration := d\<rparr>))
      | None \<Rightarrow>
          (let v1 = (case re_search passed_re output of
                       Some m \<Rightarrow> v\<lparr>c_passed := py_int (group m 1)\<rparr> | None \<Rightarrow> v);
               v2 = (case re_search failed_re output of
                       Some m \<Rightarrow> v1\<lparr>c_failed := py_int (group m 1)\<rparr> | None \<Rightarrow> v1);
               v3 = (case re_search errors_re output of
                       Some m \<Rightarrow> v2\<lparr>c_errors := py_int (group m 1)\<rparr> | None \<Rightarrow> v2);
               v4 = (case re_search skipped_re output of
                       Some m \<Rightarrow> v3\<lparr>c_skipped := py_int (group m 1)\<rparr> | None \<Rightarrow> v3)
           in case re_search duration_re output of
                Some m \<Rightarrow>
                  (case py_float (group m 1) of
                     Inl e \<Rightarrow> Inl e | Inr d \<Rightarrow> Inr (v4\<lparr>c_duration := d\<rparr>))
              | None \<Rightarrow> Inr v4))"

text \<open>The Jest and Playwright patterns overwrite what was found before.\<close>

definition parse_jest :: "string \<Rightarrow> counts \<Rightarrow> counts" where
  "parse_jest output v =
     (case re_search jest_re output of
        Some m \<Rightarrow> v\<lparr>c_passed := py_int (group m 1), c_failed := py_int (group m 2)\<rparr>
      | None \<Rightarrow> v)"

definition parse_playwright :: "string \<Rightarrow> counts \<Rightarrow> py_error + counts" where
  "parse_playwright output v =
     (case re_search playwright_re output of
        Some m \<Rightarrow>
          (case py_float (group m 2) of
             Inl e \<Rightarrow> Inl e
           | Inr d \<Rightarrow> Inr (v\<lparr>c_passed := py_int (group m 1), c_duration := d\<rparr>))
      | None \<Rightarrow> Inr v)"

text \<open>"Check for failure patterns in output": the same search, twice.\<close>

definition parse_failed_again :: "string \<Rightarrow> counts \<Rightarrow> counts" where
  "parse_failed_again output v =
     (case re_search failed_re output of
        Some _ \<Rightarrow>
          (case re_search failed_re output of
             Some m \<Rightarrow> v\<lparr>c_failed := py_int (group m 1)\<rparr> | None \<Rightarrow> v)
      | None \<Rightarrow> v)"

text \<open>"If we couldn't parse anything, use exit code".\<close>

definition exit_code_fallback :: "int \<Rightarrow> counts \<Rightarrow> counts" where
  "exit_code_fallback ec v =
     (if c_passed v = 0 \<and> c_failed v = 0 \<and> c_errors v = 0 then
        (if ec = 0 then v\<lparr>c_passed := 1\<rparr> else v\<lparr>c_failed := 1\<rparr>)
      else v)"

definition parse_counts :: "string \<Rightarrow> int \<Rightarrow> py_error + counts" where
  "parse_counts output ec =
     (case parse_pytest output
             \<lparr>c_passed = 0, c_failed = 0, c_errors = 0, c_skipped = 0, c_duration = 0\<rparr> of
        Inl e \<Rightarrow> Inl e
      | Inr v1 \<Rightarrow>
          (case parse_playwright output (parse_jest output v1) of
             Inl e \<Rightarrow> Inl e
           | Inr v3 \<Rightarrow> Inr (exit_code_fallback ec (parse_failed_again output v3))))"

text \<open>
  The returned \<open>TestResult\<close>: the constructor call names the four counts, the duration
  and the exit code; \<open>total\<close>, \<open>parsing_warning\<close> and \<open>parsed_from\<close> keep their defaults.
\<close>

definition parse_test_results :: "string \<Rightarrow> int \<Rightarrow> py_error + TestResult" where
  "parse_test_results output ec =
     (case parse_counts output ec of
        Inl e \<Rightarrow> Inl e
      | Inr v \<Rightarrow>
          Inr (mk_TestResult (c_passed v) (c_failed v) (c_errors v) (c_skipped v)
                 (c_duration v) None ec None None))"

subsection \<open>What a pattern needs at the position where it is tried\<close>

text \<open>
  Two syntactic properties of a pattern, used to reason about inputs that are only
  partly known: whether it can match the empty string, and which characters a
  non-empty match can start with (an over-approximation).
\<close>

primrec nullable :: "regex \<Rightarrow> bool" where
  "nullable (Lit l) = (l = [])"
| "nullable (LitI l) = (l = [])"
| "nullable (Rep greedy n p) = (n = 0)"
| "nullable (Opt x) = True"
| "nullable (Grp n r) = nullable r"
| "nullable (Seq a b) = (nullable a \<and> nullable b)"

primrec first :: "regex \<Rightarrow> char \<Rightarrow> bool" where
  "first (Lit l) x = (case l of [] \<Rightarrow> False | p # _ \<Rightarrow> x = p)"
| "first (LitI l) x = (case l of [] \<Rightarrow> False | p # _ \<Rightarrow> ascii_lower x = ascii_lower p)"
| "first (Rep greedy n p) x = p x"
| "first (Opt y) x = (x = y)"
| "first (Grp n r) x = first r x"
| "first (Seq a b) x = (first a x \<or> (nullable a \<and> first b x))"

text \<open>
  Whether a match attempt of \<open>r\<close> succeeds at a position inside \<open>pre\<close>, when \<open>pre\<close> is
  followed by \<open>rest\<close>: these are the positions \<open>re.search\<close> tries before it reaches
  \<open>rest\<close>.
\<close>

fun starts_within :: "regex \<Rightarrow> string \<Rightarrow> string \<Rightarrow> bool" where
  "starts_within r [] rest = False"
| "starts_within r (x # xs) rest =
     (match_here r (x # xs @ rest) \<noteq> None \<or> starts_within r xs rest)"



section \<open>Running commands (systemeval/environments/executor.py)\<close>

record ExecutionResult =
  er_exit_code :: int
  er_stdout :: string
  er_stderr :: string
  er_duration :: rat
  er_command :: string

definition success :: "ExecutionResult \<Rightarrow> bool" where
  "success r = (er_exit_code r = 0)"

text \<open>\<open>sep.join(xs)\<close>\<close>

fun join :: "string \<Rightarrow> string list \<Rightarrow> string" where
  "join sep [] = []"
| "join sep [x] = x"
| "join sep (x # y # ys) = x @ sep @ join sep (y # ys)"

text \<open>\<open>str()\<close> of an integer, and of the \<open>Optional[int]\<close> timeout inside an f-string.\<close>

fun nat_str :: "nat \<Rightarrow> string" where
  "nat_str n =
     (if n < 10 then [char_of (48 + n)] else nat_str (n div 10) @ [char_of (48 + n mod 10)])"

declare nat_str.simps [simp del]

definition int_str :: "int \<Rightarrow> string" where
  "int_str i = (if i < 0 then CHR ''-'' # nat_str (nat (- i)) else nat_str (nat i))"

definition opt_int_str :: "int option \<Rightarrow> string" where
  "opt_int_str t = (case t of None \<Rightarrow> ''None'' | Some i \<Rightarrow> int_str i)"

text \<open>
  What the host does with one subprocess call is an input of the model. A call ends in
  one of three ways: the process exits with a return code, \<open>subprocess.TimeoutExpired\<close>
  is raised, or another exception is raised (with its message). In streaming mode the
  lines read from the pipe are recorded; in capture mode \<open>result.stdout\<close> and
  \<open>result.stderr\<close>. \<open>pr_elapsed\<close> is \<open>time.time() - start\<close> when the result is built.
\<close>

datatype proc_outcome = Completed int | TimeoutExpired | OtherException string

record proc_run =
  pr_outcome :: proc_outcome
  pr_lines :: "string list"
  pr_stdout :: string
  pr_stderr :: string
  pr_elapsed :: rat

text \<open>
  The host: whether a directory exists, and what running a command (with a timeout,
  streaming or not) does, in a world \<open>'w\<close> that every call may change.
\<close>

record 'w host =
  dir_exists :: "'w \<Rightarrow> string \<Rightarrow> bool"
  run_process :: "'w \<Rightarrow> string \<Rightarrow> int option \<Rightarrow> bool \<Rightarrow> proc_run \<times> 'w"

text \<open>The fields of a \<open>TestExecutor\<close> that the modelled methods read or write.\<close>

record TestExecutor =
  working_dir :: string
  output_buffer :: "string list"

text \<open>
  \<open>TestExecutor._execute_single\<close> with \<open>_execute_streaming\<close> and \<open>_execute_capture\<close>
  inlined. The streaming path resets \<open>_output_buffer\<close> and appends the lines read; the
  capture path leaves it alone, so that after a timeout in capture mode \<open>stdout\<close> is
  joined from whatever an earlier streaming call left there.
\<close>

definition execute_single ::
  "'w host \<Rightarrow> string \<Rightarrow> int option \<Rightarrow> bool \<Rightarrow> TestExecutor \<times> 'w
     \<Rightarrow> ExecutionResult \<times> TestExecutor \<times> 'w" where
  "execute_single h cmd timeout stream st =
     (let (ex, w) = st in
      if \<not> dir_exists h w (working_dir ex) then
        (\<lparr>er_exit_code = 2, er_stdout = [],
          er_stderr = ''Working directory does not exist: '' @ working_dir ex,
          er_duration = 0, er_command = cmd\<rparr>, ex, w)
      else
        (let (pr, w') = run_process h w cmd timeout stream;
             ex' = (if stream then ex\<lparr>output_buffer := pr_lines pr\<rparr> else ex)
         in case pr_outcome pr of
              Completed rc \<Rightarrow>
                (if stream then
                   \<lparr>er_exit_code = rc, er_stdout = concat (output_buffer ex'), er_stderr = [],
                    er_duration = pr_elapsed pr, er_command = cmd\<rparr>
                 else
                   \<lparr>er_exit_code = rc, er_stdout = pr_stdout pr, er_stderr = pr_stderr pr,
                    er_duration = pr_elapsed pr, er_command = cmd\<rparr>,
                 ex', w')
            | TimeoutExpired \<Rightarrow>
                (\<lparr>er_exit_code = 124, er_stdout = join [CHR 0x0A] (output_buffer ex'),
                  er_stderr = ''Command timed out after '' @ opt_int_str timeout @ ''s'',
                  er_duration = pr_elapsed pr, er_command = cmd\<rparr>, ex', w')
            | OtherException msg \<Rightarrow>
                (\<lparr>er_exit_code = 1, er_stdout = [], er_stderr = msg,
                  er_duration = pr_elapsed pr, er_command = cmd\<rparr>, ex', w')))"

text \<open>
  \<open>TestExecutor._execute_sequence\<close>: the \<open>for\<close> loop, with the three accumulators, and
  the result built after it.
\<close>

definition block :: "string \<Rightarrow> string \<Rightarrow> string" where
  "block cmd out = ''=== '' @ cmd @ '' ==='' @ [CHR 0x0A] @ out"

fun sequence_loop ::
  "'w host \<Rightarrow> string list \<Rightarrow> int option \<Rightarrow> bool \<Rightarrow> string list \<Rightarrow>
     string list \<Rightarrow> string list \<Rightarrow> rat \<Rightarrow> TestExecutor \<times> 'w
     \<Rightarrow> ExecutionResult \<times> TestExecutor \<times> 'w" where
  "sequence_loop h commands timeout stream [] all_stdout all_stderr total_duration st =
     (\<lparr>er_exit_code = 0, er_stdout = join [CHR 0x0A] all_stdout,
       er_stderr = join [CHR 0x0A] all_stderr, er_duration = total_duration,
       er_command = join '' && '' commands\<rparr>, st)"
| "sequence_loop h commands timeout stream (cmd # rest) all_stdout all_stderr total_duration st =
     (let (result, st') = execute_single h cmd timeout stream st;
          all_stdout' = all_stdout @ [block cmd (er_stdout result)];
          all_stderr' = (if er_stderr result \<noteq> [] then all_stderr @ [block cmd (er_stderr result)]
                         else all_stderr);
          total_duration' = total_duration + er_duration result
      in if \<not> success result then
           (\<lparr>er_exit_code = er_exit_code result, er_stdout = join [CHR 0x0A] all_stdout',
             er_stderr = join [CHR 0x0A] all_stderr', er_duration = total_duration',
             er_command = join '' && '' commands\<rparr>, st')
         else sequence_loop h commands timeout stream rest all_stdout' all_stderr'
                total_duration' st')"

definition execute_sequence ::
  "'w host \<Rightarrow> string list \<Rightarrow> int option \<Rightarrow> bool \<Rightarrow> TestExecutor \<times> 'w
     \<Rightarrow> ExecutionResult \<times> TestExecutor \<times> 'w" where
  "execute_sequence h commands timeout stream st =
     sequence_loop h commands timeout stream commands [] [] 0 st"

text \<open>\<open>TestExecutor.execute\<close>: a list runs as a sequence, a string as one command.\<close>

datatype command_arg = Single string | Many "string list"

definition execute ::
  "'w host \<Rightarrow> command_arg \<Rightarrow> int option \<Rightarrow> bool \<Rightarrow> TestExecutor \<times> 'w
     \<Rightarrow> ExecutionResult \<times> TestExecutor \<times> 'w" where
  "execute h command timeout stream st =
     (case command of
        Many cmds \<Rightarrow> execute_sequence h cmds timeout stream st
      | Single cmd \<Rightarrow> execute_single h cmd timeout stream st)"


text \<open>
  For the statement of the fail-fast property: what each command of a list returns when
  the commands are run one after the other, none skipped, and the state after the
  first \<open>n\<close> of them.
\<close>

fun run_each ::
  "'w host \<Rightarrow> int option \<Rightarrow> bool \<Rightarrow> string list \<Rightarrow> TestExecutor \<times> 'w \<Rightarrow> ExecutionResult list" where
  "run_each h timeout stream [] st = []"
| "run_each h timeout stream (cmd # rest) st =
     (let (result, st') = execute_single h cmd timeout stream st
      in result # run_each h timeout stream rest st')"


definition attempted :: "ExecutionResult list \<Rightarrow> nat" where
  "attempted rs =
     (let n = length (takeWhile success rs) in if n < length rs then Suc n else n)"


subsection \<open>The two ways a command is run\<close>

text \<open>
  What a command does when nothing stops it: the lines it writes, each marked with
  whether it goes to the standard error stream, the time at which it closes its output
  and the time at which it exits, both in seconds after its start, and its return code.
\<close>

record process =
  p_output :: "(bool \<times> string) list"
  p_closes_at :: rat
  p_exits_at :: rat
  p_returncode :: int

definition finished_at :: "process \<Rightarrow> rat" where
  "finished_at p = max (p_closes_at p) (p_exits_at p)"

text \<open>
  \<open>_execute_streaming\<close> and the streaming branch of \<open>_docker_exec\<close> start the command
  with \<open>Popen\<close>, the standard error stream merged into the output, and then run two
  statements in this order. First the loop \<open>for line in iter(process.stdout.readline,
  "")\<close>: it takes no timeout and ends when the output is closed. Then
  \<open>process.wait(timeout=timeout)\<close>, called at that time \<open>now\<close>: it returns when the
  process has exited and raises \<open>TimeoutExpired\<close> when \<open>timeout\<close> seconds have passed
  since the call; it does not stop the process.
\<close>

definition read_lines :: "process \<Rightarrow> string list \<times> rat" where
  "read_lines p = (map snd (p_output p), p_closes_at p)"

definition popen_wait :: "process \<Rightarrow> rat \<Rightarrow> int option \<Rightarrow> proc_outcome \<times> rat" where
  "popen_wait p now timeout =
     (case timeout of
        None \<Rightarrow> (Completed (p_returncode p), max now (p_exits_at p))
      | Some t \<Rightarrow>
          if p_exits_at p \<le> now \<or> p_exits_at p < now + of_int t
          then (Completed (p_returncode p), max now (p_exits_at p))
          else (TimeoutExpired, now + of_int t))"

definition popen_streaming :: "process \<Rightarrow> int option \<Rightarrow> proc_run" where
  "popen_streaming p timeout =
     (let (lines, now) = read_lines p;
          (outcome, finish) = popen_wait p now timeout
      in \<lparr>pr_outcome = outcome, pr_lines = lines, pr_stdout = [], pr_stderr = [],
          pr_elapsed = finish\<rparr>)"

text \<open>
  \<open>_execute_capture\<close> and the other branch of \<open>_docker_exec\<close> call
  \<open>subprocess.run(..., capture_output=True, timeout=timeout)\<close>: it returns the two
  streams and the return code when the process has finished within \<open>timeout\<close> seconds
  of its start; otherwise it kills the process it started and raises \<open>TimeoutExpired\<close>.
  The second component tells whether the process was killed.
\<close>

definition subprocess_run :: "process \<Rightarrow> int option \<Rightarrow> proc_run \<times> bool" where
  "subprocess_run p timeout =
     (case timeout of
        None \<Rightarrow>
          (\<lparr>pr_outcome = Completed (p_returncode p), pr_lines = [],
            pr_stdout = concat (map snd (filter (\<lambda>l. \<not> fst l) (p_output p))),
            pr_stderr = concat (map snd (filter fst (p_output p))),
            pr_elapsed = finished_at p\<rparr>, False)
      | Some t \<Rightarrow>
          if finished_at p \<le> of_int t then
            (\<lparr>pr_outcome = Completed (p_returncode p), pr_lines = [],
              pr_stdout = concat (map snd (filter (\<lambda>l. \<not> fst l) (p_output p))),
              pr_stderr = concat (map snd (filter fst (p_output p))),
              pr_elapsed = finished_at p\<rparr>, False)
          else
            (\<lparr>pr_outcome = TimeoutExpired, pr_lines = [], pr_stdout = [], pr_stderr = [],
              pr_elapsed = of_int t\<rparr>, True))"

text \<open>
  The host made of these two: \<open>dirs\<close> tells which directories exist, \<open>spawn\<close> what
  starting a command gives, an exception with its message or a process. The world is
  the list of the commands whose process has been killed.
\<close>

definition subprocess_host ::
  "(string \<Rightarrow> bool) \<Rightarrow> (string \<Rightarrow> string + process) \<Rightarrow> string list host" where
  "subprocess_host dirs spawn =
     \<lparr>dir_exists = (\<lambda>w d. dirs d),
      run_process = (\<lambda>w cmd timeout stream.
        case spawn cmd of
          Inl msg \<Rightarrow>
            (\<lparr>pr_outcome = OtherException msg, pr_lines = [], pr_stdout = [], pr_stderr = [],
              pr_elapsed = 0\<rparr>, w)
        | Inr p \<Rightarrow>
            if stream then (popen_streaming p timeout, w)
            else (let (pr, killed) = subprocess_run p timeout
                  in (pr, if killed then w @ [cmd] else w)))\<rparr>"


section \<open>The content hash (systemeval/core/evaluation.py)\<close>

datatype json = JNull | JBool bool | JStr string | JList "json list" | JDict "(string \<times> json) list"

text \<open>
  \<open>json.dumps\<close> with its defaults and \<open>sort_keys=True\<close>, for the values a hash content
  holds: \<open>None\<close>, booleans, strings, lists and dictionaries with string keys. With
  \<open>ensure_ascii\<close> a string is written between double quotes, the quote and the backslash
  escaped with a backslash, the control characters that have a short escape written
  with it, and every other character outside \<open>' '\<close>..\<open>'~'\<close> as \<open>\u00XX\<close>. Items are
  separated by \<open>", "\<close>, a key from its value by \<open>": "\<close>, and the items of a dictionary
  are sorted by key, strings comparing by code point.
\<close>

definition hex_digit :: "nat \<Rightarrow> char" where
  "hex_digit n = ''0123456789abcdef'' ! n"

definition escape_char :: "char \<Rightarrow> string" where
  "escape_char c =
     (if c = CHR 0x22 then [CHR 0x5C, CHR 0x22]
      else if c = CHR 0x5C then [CHR 0x5C, CHR 0x5C]
      else if c = CHR 0x0A then [CHR 0x5C, CHR ''n'']
      else if c = CHR 0x0D then [CHR 0x5C, CHR ''r'']
      else if c = CHR 0x09 then [CHR 0x5C, CHR ''t'']
      else if c = CHR 0x08 then [CHR 0x5C, CHR ''b'']
      else if c = CHR 0x0C then [CHR 0x5C, CHR ''f'']
      else if 32 \<le> (of_char c :: nat) \<and> (of_char c :: nat) \<le> 126 then [c]
      else [CHR 0x5C, CHR ''u'', CHR ''0'', CHR ''0'',
            hex_digit ((of_char c :: nat) div 16), hex_digit ((of_char c :: nat) mod 16)])"

definition json_str :: "string \<Rightarrow> string" where
  "json_str s = [CHR 0x22] @ concat (map escape_char s) @ [CHR 0x22]"

fun str_less :: "string \<Rightarrow> string \<Rightarrow> bool" where
  "str_less [] [] = False"
| "str_less [] (y # ys) = True"
| "str_less (x # xs) [] = False"
| "str_less (x # xs) (y # ys) =
     ((of_char x :: nat) < of_char y \<or> (x = y \<and> str_less xs ys))"

fun insert_item :: "string \<times> 'a \<Rightarrow> (string \<times> 'a) list \<Rightarrow> (string \<times> 'a) list" where
  "insert_item kv [] = [kv]"
| "insert_item kv (x # xs) =
     (if str_less (fst kv) (fst x) then kv # x # xs else x # insert_item kv xs)"

definition sort_items :: "(string \<times> 'a) list \<Rightarrow> (string \<times> 'a) list" where
  "sort_items kvs = foldr insert_item kvs []"

fun dumps :: "json \<Rightarrow> string" where
  "dumps JNull = ''null''"
| "dumps (JBool b) = (if b then ''true'' else ''false'')"
| "dumps (JStr s) = json_str s"
| "dumps (JList xs) = ''['' @ join '', '' (map dumps xs) @ '']''"
| "dumps (JDict kvs) =
     ''{'' @ join '', '' (map (\<lambda>(k, s). json_str k @ '': '' @ s)
                            (sort_items (map (\<lambda>(k, v). (k, dumps v)) kvs))) @ ''}''"

subsection \<open>SHA-256\<close>

text \<open>
  \<open>hashlib.sha256\<close> is SHA-256 as FIPS 180-4 defines it: the message is padded to a
  multiple of 64 bytes, and each block of sixteen big-endian words, extended to
  sixty-four, goes through sixty-four rounds.
\<close>

type_synonym u32 = "32 word"

text \<open>
  The constants of the standard are not tabulated here but computed from what defines
  them: the round constants are the first thirty-two bits of the fractional parts of
  the cube roots of the first sixty-four primes, the initial hash value those of the
  square roots of the first eight.
\<close>

definition is_prime :: "nat \<Rightarrow> bool" where
  "is_prime p = (2 \<le> p \<and> list_all (\<lambda>d. p mod d \<noteq> 0) [2..<p])"

definition first_primes :: "nat \<Rightarrow> int list" where
  "first_primes n = map int (take n (filter is_prime [2..<312]))"

text \<open>The integer part of the \<open>k\<close>-th root of \<open>n\<close>, bit by bit from bit 63 down.\<close>

definition root_floor :: "nat \<Rightarrow> int \<Rightarrow> int" where
  "root_floor k n =
     foldl (\<lambda>r b. if (r + 2 ^ b) ^ k \<le> n then r + 2 ^ b else r) 0 (rev [0..<64])"

definition fraction_bits :: "nat \<Rightarrow> int \<Rightarrow> u32" where
  "fraction_bits k p = of_int (root_floor k (p * 2 ^ (32 * k)))"

definition K256 :: "u32 list" where
  "K256 = map (fraction_bits 3) (first_primes 64)"

definition H256 :: "u32 \<times> u32 \<times> u32 \<times> u32 \<times> u32 \<times> u32 \<times> u32 \<times> u32" where
  "H256 =
     (let h = (\<lambda>i. fraction_bits 2 (first_primes 8 ! i))
      in (h 0, h 1, h 2, h 3, h 4, h 5, h 6, h 7))"

definition rotr :: "nat \<Rightarrow> u32 \<Rightarrow> u32" where
  "rotr n x = (drop_bit n x) OR (push_bit (32 - n) x)"

definition small_sigma0 :: "u32 \<Rightarrow> u32" where
  "small_sigma0 x = rotr 7 x XOR rotr 18 x XOR drop_bit 3 x"

definition small_sigma1 :: "u32 \<Rightarrow> u32" where
  "small_sigma1 x = rotr 17 x XOR rotr 19 x XOR drop_bit 10 x"

definition big_sigma0 :: "u32 \<Rightarrow> u32" where
  "big_sigma0 x = rotr 2 x XOR rotr 13 x XOR rotr 22 x"

definition big_sigma1 :: "u32 \<Rightarrow> u32" where
  "big_sigma1 x = rotr 6 x XOR rotr 11 x XOR rotr 25 x"

definition ch :: "u32 \<Rightarrow> u32 \<Rightarrow> u32 \<Rightarrow> u32" where
  "ch x y z = (x AND y) XOR (NOT x AND z)"

definition maj :: "u32 \<Rightarrow> u32 \<Rightarrow> u32 \<Rightarrow> u32" where
  "maj x y z = (x AND y) XOR (x AND z) XOR (y AND z)"

text \<open>Padding: the byte 0x80, zeros up to 56 modulo 64, the bit length in 64 bits.\<close>

definition length_bytes :: "64 word \<Rightarrow> 8 word list" where
  "length_bytes n = map (\<lambda>i. ucast (drop_bit (8 * (7 - i)) n)) [0..<8]"

definition pad :: "8 word list \<Rightarrow> 8 word list" where
  "pad m =
     m @ [0x80] @ replicate ((55 + 64 - length m mod 64) mod 64) 0
       @ length_bytes (of_nat (8 * length m))"

definition word_of_bytes :: "8 word list \<Rightarrow> u32" where
  "word_of_bytes bs = foldl (\<lambda>acc b. push_bit 8 acc OR ucast b) 0 bs"

fun chunks :: "nat \<Rightarrow> 'a list \<Rightarrow> 'a list list" where
  "chunks n [] = []"
| "chunks n (x # xs) =
     (if n = 0 then [] else take n (x # xs) # chunks n (drop n (x # xs)))"

fun extend_schedule :: "nat \<Rightarrow> u32 list \<Rightarrow> u32 list" where
  "extend_schedule 0 w = w"
| "extend_schedule (Suc n) w =
     (let t = length w
      in extend_schedule n
           (w @ [small_sigma1 (w ! (t - 2)) + w ! (t - 7) + small_sigma0 (w ! (t - 15)) + w ! (t - 16)]))"

type_synonym sha_state = "u32 \<times> u32 \<times> u32 \<times> u32 \<times> u32 \<times> u32 \<times> u32 \<times> u32"

definition sha_round :: "sha_state \<Rightarrow> u32 \<times> u32 \<Rightarrow> sha_state" where
  "sha_round st kw =
     (case st of (a, b, c, d, e, f, g, h) \<Rightarrow>
        let t1 = h + big_sigma1 e + ch e f g + fst kw + snd kw;
            t2 = big_sigma0 a + maj a b c
        in (t1 + t2, a, b, c, d + t1, e, f, g))"

definition add_state :: "sha_state \<Rightarrow> sha_state \<Rightarrow> sha_state" where
  "add_state s t =
     (case s of (a, b, c, d, e, f, g, h) \<Rightarrow>
      case t of (a', b', c', d', e', f', g', h') \<Rightarrow>
        (a + a', b + b', c + c', d + d', e + e', f + f', g + g', h + h'))"

definition compress :: "sha_state \<Rightarrow> 8 word list \<Rightarrow> sha_state" where
  "compress h blk =
     add_state h
       (foldl sha_round h
          (zip K256 (extend_schedule 48 (map word_of_bytes (chunks 4 blk)))))"

definition sha256 :: "8 word list \<Rightarrow> u32 list" where
  "sha256 m =
     (case foldl compress H256 (chunks 64 (pad m)) of
        (a, b, c, d, e, f, g, h) \<Rightarrow> [a, b, c, d, e, f, g, h])"

definition hex_of_word :: "u32 \<Rightarrow> string" where
  "hex_of_word x = map (\<lambda>i. hex_digit (unat (drop_bit (4 * (7 - i)) x AND 15))) [0..<8]"

definition hexdigest :: "u32 list \<Rightarrow> string" where
  "hexdigest ws = concat (map hex_of_word ws)"

text \<open>\<open>str.encode()\<close> is UTF-8: one byte below 128, two bytes from 128 to 255.\<close>

definition utf8_encode :: "string \<Rightarrow> 8 word list" where
  "utf8_encode s =
     concat (map (\<lambda>c. let n = (of_char c :: nat)
                       in if n < 128 then [of_nat n]
                          else [of_nat (192 + n div 64), of_nat (128 + n mod 64)]) s)"




subsection \<open>\<open>EvaluationResult._compute_hash\<close>, \<open>finalize\<close>, \<open>add_session\<close>\<close>

text \<open>\<open>str(m.value)\<close>\<close>

fun py_str :: "pyval \<Rightarrow> string" where
  "py_str PNone = ''None''"
| "py_str (PBool b) = (if b then ''True'' else ''False'')"
| "py_str (PInt i) = int_str i"
| "py_str (PStr s) = s"
| "py_str (PObject n s) = s"

definition json_opt :: "string option \<Rightarrow> json" where
  "json_opt x = (case x of None \<Rightarrow> JNull | Some s \<Rightarrow> JStr s)"

text \<open>The dictionary \<open>hash_content\<close>, its keys in the order of the source.\<close>

definition metric_content :: "MetricResult \<Rightarrow> json" where
  "metric_content m =
     JDict [(''name'', JStr (m_name m)),
            (''value'', JStr (py_str (m_value m))),
            (''passed'', JBool (m_passed m))]"

definition session_content :: "SessionResult \<Rightarrow> json" where
  "session_content s =
     JDict [(''session_name'', JStr (session_name s)),
            (''verdict'', JStr (verdict_value (session_verdict s))),
            (''metrics'', JList (map metric_content (metrics s)))]"

definition hash_content :: "EvaluationResult \<Rightarrow> json" where
  "hash_content r =
     JDict [(''adapter_type'', JStr (adapter_type (metadata r))),
            (''category'', json_opt (category (metadata r))),
            (''project_name'', json_opt (project_name (metadata r))),
            (''verdict'', JStr (verdict_value (evaluation_verdict r))),
            (''sessions'', JList (map session_content (sessions r)))]"

definition hash_str :: "EvaluationResult \<Rightarrow> string" where
  "hash_str r = dumps (hash_content r)"

definition compute_hash :: "EvaluationResult \<Rightarrow> string" where
  "compute_hash r = take 16 (hexdigest (sha256 (utf8_encode (hash_str r))))"

text \<open>
  \<open>finalize\<close>; \<open>now\<close> is the reading of \<open>time.time()\<close>. \<open>if self._start_time\<close> tests the
  float for being non-zero.
\<close>

definition finalize :: "rat \<Rightarrow> EvaluationResult \<Rightarrow> EvaluationResult" where
  "finalize now r =
     (if finalized r then r
      else
        (let r1 = (if start_time r \<noteq> 0
                   then r\<lparr>metadata := (metadata r)\<lparr>md_duration_seconds := now - start_time r\<rparr>\<rparr>
                   else r);
             r2 = r1\<lparr>metadata := (metadata r1)\<lparr>run_hash := compute_hash r1\<rparr>\<rparr>
         in r2\<lparr>finalized := True\<rparr>))"

text \<open>
  \<open>add_session\<close> returns the exception it raises, if any, and the object as the call
  leaves it.
\<close>

definition add_session ::
  "SessionResult \<Rightarrow> EvaluationResult \<Rightarrow> py_error option \<times> EvaluationResult" where
  "add_session s r =
     (if finalized r then (Some (RuntimeError ''Cannot add session to finalized evaluation''), r)
      else (None, r\<lparr>sessions := sessions r @ [s]\<rparr>))"

section \<open>The verdict cascade\<close>

text \<open>
  C1. A session's verdict is ERROR when it has no metrics, PASS when every metric passed,
  FAIL otherwise; an evaluation's verdict is ERROR when it has no sessions or some session
  is ERROR, else FAIL when some session is FAIL, else PASS.
\<close>

theorem verdict_cascade:
  "(metrics s = [] \<longrightarrow> session_verdict s = ERROR) \<and>
   (metrics s \<noteq> [] \<and> (\<forall>m \<in> set (metrics s). m_passed m) \<longrightarrow> session_verdict s = PASS) \<and>
   (metrics s \<noteq> [] \<and> (\<exists>m \<in> set (metrics s). \<not> m_passed m) \<longrightarrow> session_verdict s = FAIL) \<and>
   (sessions r = [] \<or> (\<exists>x \<in> set (sessions r). session_verdict x = ERROR)
      \<longrightarrow> evaluation_verdict r = ERROR) \<and>
   (sessions r \<noteq> [] \<and> (\<forall>x \<in> set (sessions r). session_verdict x \<noteq> ERROR) \<and>
      (\<exists>x \<in> set (sessions r). session_verdict x = FAIL) \<longrightarrow> evaluation_verdict r = FAIL) \<and>
   (sessions r \<noteq> [] \<and> (\<forall>x \<in> set (sessions r). session_verdict x = PASS)
      \<longrightarrow> evaluation_verdict r = PASS)"
proof -
  have all_pass: "(\<forall>x \<in> set (sessions r). session_verdict x = PASS) \<Longrightarrow>
      \<not> list_ex (\<lambda>s. session_verdict s = ERROR) (sessions r) \<and>
      \<not> list_ex (\<lambda>s. session_verdict s = FAIL) (sessions r)"
    by (auto simp: list_ex_iff)
  show ?thesis
    using all_pass
    by (auto simp: session_verdict_def evaluation_verdict_def list_all_iff list_ex_iff)
qed


theorem verdict_cascade_witness:
  "session_verdict (create_session ''a'' ''1'' ''t'') = ERROR \<and>
   session_verdict ((create_session ''a'' ''1'' ''t'')
      \<lparr>metrics := [metric ''x'' (PInt 1) (PInt 1) True]\<rparr>) = PASS \<and>
   session_verdict ((create_session ''a'' ''1'' ''t'')
      \<lparr>metrics := [metric ''x'' (PInt 1) (PInt 1) True, metric ''y'' (PInt 2) (PInt 1) False]\<rparr>)
     = FAIL \<and>
   evaluation_verdict (create_evaluation ''pytest'' None None ''u'' ''t'' [] 1) = ERROR \<and>
   evaluation_verdict ((create_evaluation ''pytest'' None None ''u'' ''t'' [] 1)
      \<lparr>sessions :=
         [(create_session ''a'' ''1'' ''t'')\<lparr>metrics := [metric ''x'' (PInt 1) (PInt 1) True]\<rparr>,
          (create_session ''b'' ''2'' ''t'')\<lparr>metrics := [metric ''y'' (PInt 2) (PInt 1) False]\<rparr>]\<rparr>)
     = FAIL \<and>
   evaluation_verdict ((create_evaluation ''pytest'' None None ''u'' ''t'' [] 1)
      \<lparr>sessions :=
         [(create_session ''a'' ''1'' ''t'')\<lparr>metrics := [metric ''x'' (PInt 1) (PInt 1) True]\<rparr>]\<rparr>)
     = PASS"
proof -
  let ?s0 = "create_session ''a'' ''1'' ''t''"
  let ?sp = "?s0\<lparr>metrics := [metric ''x'' (PInt 1) (PInt 1) True]\<rparr>"
  let ?sf = "?s0\<lparr>metrics := [metric ''x'' (PInt 1) (PInt 1) True,
                                 metric ''y'' (PInt 2) (PInt 1) False]\<rparr>"
  let ?sb = "(create_session ''b'' ''2'' ''t'')
               \<lparr>metrics := [metric ''y'' (PInt 2) (PInt 1) False]\<rparr>"
  let ?r0 = "create_evaluation ''pytest'' None None ''u'' ''t'' [] 1"
  have sp: "session_verdict ?sp = PASS"
    using verdict_cascade [of ?sp ?r0] by (simp add: create_session_def metric_def)
  have sb: "session_verdict ?sb = FAIL"
    using verdict_cascade [of ?sb ?r0] by (simp add: create_session_def metric_def)
  have a: "session_verdict ?s0 = ERROR"
    using verdict_cascade [of ?s0 ?r0] by (simp add: create_session_def)
  have b: "session_verdict ?sf = FAIL"
    using verdict_cascade [of ?sf ?r0] by (simp add: create_session_def metric_def)
  have c: "evaluation_verdict ?r0 = ERROR"
    using verdict_cascade [of ?s0 ?r0] by (simp add: create_evaluation_def)
  have d: "evaluation_verdict (?r0\<lparr>sessions := [?sp, ?sb]\<rparr>) = FAIL"
    using verdict_cascade [of ?s0 "?r0\<lparr>sessions := [?sp, ?sb]\<rparr>"] sp sb by simp
  have e: "evaluation_verdict (?r0\<lparr>sessions := [?sp]\<rparr>) = PASS"
    using verdict_cascade [of ?s0 "?r0\<lparr>sessions := [?sp]\<rparr>"] sp by simp
  from a sp b c d e show ?thesis by simp
qed

section \<open>Fallback results of a failed command\<close>

text \<open>
  C4. A TestResult whose provenance marker \<open>parsed_from\<close> is "fallback" and whose exit
  code is non-zero has verdict ERROR, never FAIL and never PASS.
\<close>

theorem fallback_failure_is_error:
  "parsed_from t = Some ''fallback'' \<Longrightarrow> exit_code t \<noteq> 0 \<Longrightarrow>
     test_verdict t = ERROR \<and> test_verdict t \<noteq> FAIL \<and> test_verdict t \<noteq> PASS"
  by (simp add: test_verdict_def)

theorem fallback_failure_is_error_witness:
  "parsed_from (mk_TestResult 0 1 0 0 0 None 1 None (Some ''fallback'')) = Some ''fallback'' \<and>
   exit_code (mk_TestResult 0 1 0 0 0 None 1 None (Some ''fallback'')) = 1 \<and>
   test_verdict (mk_TestResult 0 1 0 0 0 None 1 None (Some ''fallback'')) = ERROR"
  using fallback_failure_is_error [of "mk_TestResult 0 1 0 0 0 None 1 None (Some ''fallback'')"]
  by (simp add: mk_TestResult_def)


section \<open>Properties of the matcher\<close>

text \<open>
  A pattern that cannot match the empty string fails at once where the input ends or
  starts with a character none of its matches starts with.
\<close>

lemma rmatch_first_gen:
  "\<not> first r x \<Longrightarrow>
     (if nullable r then (\<exists>c'. rmatch r k (x # s) c = k [] (x # s) c')
      else rmatch r k (x # s) c = None)"
proof (induction r arbitrary: k c)
  case (Lit l)
  then show ?case by (cases l) auto
next
  case (LitI l)
  then show ?case by (cases l) auto
next
  case (Rep g n p)
  then show ?case
    by (cases "k [] (x # s) c") (auto intro: exI [of _ c])
next
  case (Opt y)
  then show ?case by auto
next
  case (Grp n r)
  from Grp.prems have nf: "\<not> first r x" by simp
  show ?case
    using Grp.IH [OF nf, of "\<lambda>u s' c'. k u s' ((n, u) # c')" c] by auto
next
  case (Seq a b)
  from Seq.prems have na: "\<not> first a x" by simp
  note A = Seq.IH(1) [OF na, of "\<lambda>u. rmatch b (\<lambda>v. k (u @ v))" c]
  show ?case
  proof (cases "nullable a")
    case True
    with Seq.prems have nb: "\<not> first b x" by simp
    from A True obtain c1 where
      c1: "rmatch a (\<lambda>u. rmatch b (\<lambda>v. k (u @ v))) (x # s) c = rmatch b (\<lambda>v. k ([] @ v)) (x # s) c1"
      by auto
    show ?thesis
      using Seq.IH(2) [OF nb, of "\<lambda>v. k ([] @ v)" c1] c1 True by auto
  next
    case False
    with A show ?thesis by simp
  qed
qed

lemma rmatch_nil_gen:
  "(if nullable r then (\<exists>c'. rmatch r k [] c = k [] [] c') else rmatch r k [] c = None)"
proof (induction r arbitrary: k c)
  case (Lit l)
  then show ?case by (cases l) auto
next
  case (LitI l)
  then show ?case by (cases l) auto
next
  case (Rep g n p)
  then show ?case by auto
next
  case (Opt y)
  then show ?case by auto
next
  case (Grp n r)
  show ?case
    using Grp.IH [of "\<lambda>u s' c'. k u s' ((n, u) # c')" c] by auto
next
  case (Seq a b)
  note A = Seq.IH(1) [of "\<lambda>u. rmatch b (\<lambda>v. k (u @ v))" c]
  show ?case
  proof (cases "nullable a")
    case True
    from A True obtain c1 where
      c1: "rmatch a (\<lambda>u. rmatch b (\<lambda>v. k (u @ v))) [] c = rmatch b (\<lambda>v. k ([] @ v)) [] c1"
      by auto
    show ?thesis
      using Seq.IH(2) [of "\<lambda>v. k ([] @ v)" c1] c1 True by auto
  next
    case False
    with A show ?thesis by simp
  qed
qed

lemma rmatch_first: "\<not> nullable r \<Longrightarrow> \<not> first r x \<Longrightarrow> rmatch r k (x # s) c = None"
  using rmatch_first_gen [of r x k s c] by simp

lemma rmatch_nil: "\<not> nullable r \<Longrightarrow> rmatch r k [] c = None"
  using rmatch_nil_gen [of r k c] by simp

lemma re_search_skip:
  "\<not> nullable r \<Longrightarrow> \<forall>x \<in> set pre. \<not> first r x \<Longrightarrow> re_search r (pre @ s) = re_search r s"
  by (induction pre) (simp_all add: match_here_def rmatch_first)

lemma re_search_none:
  "\<not> nullable r \<Longrightarrow> \<forall>x \<in> set s. \<not> first r x \<Longrightarrow> re_search r s = None"
  by (induction s) (simp_all add: match_here_def rmatch_first rmatch_nil)


lemmas re_defs = pytest_re_def passed_re_def failed_re_def errors_re_def skipped_re_def
  duration_re_def jest_re_def playwright_re_def seqs_def digits1_def

lemma is_digit_simps [simp]:
  "is_digit CHR ''0''" "is_digit CHR ''1''" "is_digit CHR ''2''" "is_digit CHR ''3''"
  "is_digit CHR ''4''" "is_digit CHR ''5''" "is_digit CHR ''6''" "is_digit CHR ''7''"
  "is_digit CHR ''8''" "is_digit CHR ''9''"
  by (simp_all add: is_digit_def)

lemma pytest_core:
  "match_here pytest_re (''12 passed, 3 failed, 1 error in 4.5s'' @ suf) =
     Some [(0, ''12 passed, 3 failed, 1 error in 4.5s''), (4, ''4.5''), (3, ''1''), (2, ''3''), (1, ''12'')]"
  by (simp add: match_here_def re_defs is_digit_def is_dot_or_digit_def not_newline_def ascii_lower_def)

lemma re_search_past:
  "\<not> starts_within r pre rest \<Longrightarrow> re_search r (pre @ rest) = re_search r rest"
  by (induction pre) simp_all

lemma starts_within_first:
  "\<not> nullable r \<Longrightarrow> \<forall>x \<in> set pre. \<not> first r x \<Longrightarrow> \<not> starts_within r pre rest"
  by (induction pre) (simp_all add: match_here_def rmatch_first)

lemma pytest_found:
  assumes "\<not> starts_within pytest_re pre (''12 passed, 3 failed, 1 error in 4.5s'' @ suf)"
  shows "re_search pytest_re (pre @ ''12 passed, 3 failed, 1 error in 4.5s'' @ suf) =
     Some [(0, ''12 passed, 3 failed, 1 error in 4.5s''), (4, ''4.5''), (3, ''1''), (2, ''3''), (1, ''12'')]"
proof -
  have "re_search pytest_re (pre @ ''12 passed, 3 failed, 1 error in 4.5s'' @ suf) =
        re_search pytest_re (''12 passed, 3 failed, 1 error in 4.5s'' @ suf)"
    using assms by (rule re_search_past)
  also have "\<dots> = match_here pytest_re (''12 passed, 3 failed, 1 error in 4.5s'' @ suf)"
    using pytest_core [of suf] by simp
  also note pytest_core
  finally show ?thesis .
qed

lemma failed_found:
  assumes "\<not> starts_within failed_re pre (''12 passed, 3 failed, 1 error in 4.5s'' @ suf)"
  shows "re_search failed_re (pre @ ''12 passed, 3 failed, 1 error in 4.5s'' @ suf) =
     Some [(0, ''3 failed''), (1, ''3'')]"
proof -
  have "re_search failed_re (pre @ ''12 passed, 3 failed, 1 error in 4.5s'' @ suf) =
        re_search failed_re (''12 passed, 3 failed, 1 error in 4.5s'' @ suf)"
    using assms by (rule re_search_past)
  also have "\<dots> = Some [(0, ''3 failed''), (1, ''3'')]"
    by (simp add: match_here_def re_defs is_digit_def)
  finally show ?thesis .
qed


lemma rep_lazy_stuck:
  "\<forall>x \<in> set w. \<forall>u s c. K u (x # s) c = None \<Longrightarrow> \<forall>u c. K u [] c = None \<Longrightarrow>
     rep_lazy p 0 K acc w c = None"
  by (induction w arbitrary: acc) simp_all

lemma rep_greedy_through:
  "\<forall>x \<in> set w. \<forall>u s c. K u (x # s) c = None \<Longrightarrow>
     rep_greedy p 0 K acc (w @ rest) c =
       (if list_all p w then rep_greedy p 0 K (acc @ w) rest c else None)"
  by (induction w arbitrary: acc) (auto split: option.splits)

lemma rep_greedy_stuck:
  "\<forall>x \<in> set w. \<forall>u s c. K u (x # s) c = None \<Longrightarrow> \<forall>u c. K u [] c = None \<Longrightarrow>
     rep_greedy p 0 K acc w c = None"
  by (induction w arbitrary: acc) simp_all

lemma strip_lit_rest: "strip_lit eq l w = Some (m, r) \<Longrightarrow> set r \<subseteq> set w"
  by (induction eq l w arbitrary: m r rule: strip_lit.induct) (auto split: if_splits)

lemma strip_lit_digit:
  "\<forall>x \<in> set l. \<not> is_digit x \<Longrightarrow> \<forall>x \<in> set w. \<not> is_digit x \<Longrightarrow> is_digit d \<Longrightarrow>
     strip_lit (=) l (w @ d # t) =
       map_option (\<lambda>(m, r). (m, r @ d # t)) (strip_lit (=) l w)"
proof (induction l arbitrary: w)
  case Nil
  then show ?case by simp
next
  case (Cons a l)
  show ?case
  proof (cases w)
    case Nil
    with Cons.prems show ?thesis by auto
  next
    case (Cons b w')
    with Cons.prems Cons.IH [of w'] show ?thesis
      by (cases "strip_lit (=) l w'") auto
  qed
qed

lemma playwright_search:
  assumes pre: "\<forall>x \<in> set pre. \<not> is_digit x"
    and suf: "\<forall>x \<in> set suf. \<not> is_digit x \<and> x \<noteq> CHR ''(''"
  shows "re_search playwright_re (pre @ ''12 passed, 3 failed, 1 error in 4.5s'' @ suf) = None"
proof -
  have tail: "re_search playwright_re suf = None"
    using suf by (intro re_search_none) (simp_all add: re_defs)
  have "re_search playwright_re (pre @ ''12 passed, 3 failed, 1 error in 4.5s'' @ suf) =
        re_search playwright_re (''12 passed, 3 failed, 1 error in 4.5s'' @ suf)"
    using pre by (intro re_search_skip) (simp_all add: re_defs)
  also have "\<dots> = None"
    using suf tail
    by (simp add: match_here_def re_defs is_digit_def not_newline_def rep_lazy_stuck)
  finally show ?thesis .
qed



lemma jest_before_core:
  assumes w: "\<forall>x \<in> set w. \<not> is_digit x"
  shows "match_here jest_re (w @ ''12 passed, 3 failed, 1 error in 4.5s'' @ suf) = None"
proof (cases "strip_lit (=) ''Tests:'' w")
  case None
  then show ?thesis
    using w by (simp add: match_here_def re_defs strip_lit_digit is_digit_def)
next
  case (Some mr)
  obtain m r where mr: "mr = (m, r)" by (cases mr)
  from Some mr strip_lit_rest [of "(=)" "''Tests:''" w m r] w
  have r: "\<forall>x \<in> set r. \<not> is_digit x" by auto
  have "strip_lit (=) ''Tests:'' (w @ ''12 passed, 3 failed, 1 error in 4.5s'' @ suf) =
          Some (m, r @ ''12 passed, 3 failed, 1 error in 4.5s'' @ suf)"
    using w Some mr by (simp add: strip_lit_digit is_digit_def)
  then show ?thesis
    using r
    by (simp add: match_here_def re_defs rep_greedy_through is_space_def is_digit_def)
qed

lemma jest_no_digit:
  assumes w: "\<forall>x \<in> set w. \<not> is_digit x"
  shows "match_here jest_re w = None"
proof (cases "strip_lit (=) ''Tests:'' w")
  case None
  then show ?thesis by (simp add: match_here_def re_defs del: strip_lit.simps)
next
  case (Some mr)
  obtain m r where mr: "mr = (m, r)" by (cases mr)
  from Some mr strip_lit_rest [of "(=)" "''Tests:''" w m r] w
  have r: "\<forall>x \<in> set r. \<not> is_digit x" by auto
  show ?thesis
    using r Some mr
    by (simp add: match_here_def re_defs is_digit_def rep_greedy_stuck)
qed

lemma jest_search_no_digit:
  "\<forall>x \<in> set w. \<not> is_digit x \<Longrightarrow> re_search jest_re w = None"
  by (induction w) (simp_all add: jest_no_digit)

lemma jest_search_before_core:
  "\<forall>x \<in> set w. \<not> is_digit x \<Longrightarrow>
     re_search jest_re (w @ ''12 passed, 3 failed, 1 error in 4.5s'' @ suf) =
     re_search jest_re (''12 passed, 3 failed, 1 error in 4.5s'' @ suf)"
proof (induction w)
  case Nil
  show ?case by simp
next
  case (Cons a w)
  from Cons.prems jest_before_core [of "a # w" suf]
  have "match_here jest_re ((a # w) @ ''12 passed, 3 failed, 1 error in 4.5s'' @ suf) = None"
    by blast
  with Cons show ?case by simp
qed

lemma jest_search:
  assumes pre: "\<forall>x \<in> set pre. \<not> is_digit x"
    and suf: "\<forall>x \<in> set suf. \<not> is_digit x"
  shows "re_search jest_re (pre @ ''12 passed, 3 failed, 1 error in 4.5s'' @ suf) = None"
proof -
  have "re_search jest_re (''12 passed, 3 failed, 1 error in 4.5s'' @ suf) = re_search jest_re suf"
    by (simp add: match_here_def jest_re_def seqs_def)
  with jest_search_before_core [OF pre, of suf] jest_search_no_digit [OF suf]
  show ?thesis by simp
qed


text \<open>
  Surroundings that meet the four conditions of the next section: no decimal digit
  before the text, no decimal digit and no opening parenthesis after it.
\<close>

lemma plain_surroundings:
  assumes pre: "\<forall>x \<in> set pre. \<not> is_digit x"
    and suf: "\<forall>x \<in> set suf. \<not> is_digit x \<and> x \<noteq> CHR ''(''"
  shows "\<not> starts_within pytest_re pre (''12 passed, 3 failed, 1 error in 4.5s'' @ suf)"
    and "\<not> starts_within failed_re pre (''12 passed, 3 failed, 1 error in 4.5s'' @ suf)"
    and "re_search jest_re (pre @ ''12 passed, 3 failed, 1 error in 4.5s'' @ suf) = None"
    and "re_search playwright_re (pre @ ''12 passed, 3 failed, 1 error in 4.5s'' @ suf) = None"
proof -
  show "\<not> starts_within pytest_re pre (''12 passed, 3 failed, 1 error in 4.5s'' @ suf)"
    using pre by (intro starts_within_first) (simp_all add: re_defs)
  show "\<not> starts_within failed_re pre (''12 passed, 3 failed, 1 error in 4.5s'' @ suf)"
    using pre by (intro starts_within_first) (simp_all add: re_defs)
  from suf have "\<forall>x \<in> set suf. \<not> is_digit x" by simp
  with pre show "re_search jest_re (pre @ ''12 passed, 3 failed, 1 error in 4.5s'' @ suf) = None"
    by (rule jest_search)
  from pre suf
  show "re_search playwright_re (pre @ ''12 passed, 3 failed, 1 error in 4.5s'' @ suf) = None"
    by (rule playwright_search)
qed


section \<open>The pytest summary line\<close>

lemma summary_conversions:
  "py_int ''12'' = 12" "py_int ''3'' = 3" "py_int ''1'' = 1" "py_float ''4.5'' = Inr (9 / 2)"
  by (simp_all add: py_int_def py_float_def digit_val_def is_digit_def)

text \<open>
  C9, as amended. Let the input be \<open>pre\<close>, then "12 passed, 3 failed, 1 error in 4.5s",
  then \<open>suf\<close>. When no match of the pytest summary pattern and no match of
  \<^verbatim>\<open>(\d+) failed\<close> starts inside \<open>pre\<close>, and the input has no match of the Jest pattern
  and none of the Playwright pattern, the parser returns passed = 12, failed = 3,
  errors = 1 and duration = 4.5, whatever the exit code and whatever else \<open>pre\<close> and
  \<open>suf\<close> hold.
\<close>

theorem summary_line_parsed:
  assumes py: "\<not> starts_within pytest_re pre (''12 passed, 3 failed, 1 error in 4.5s'' @ suf)"
    and fl: "\<not> starts_within failed_re pre (''12 passed, 3 failed, 1 error in 4.5s'' @ suf)"
    and je: "re_search jest_re (pre @ ''12 passed, 3 failed, 1 error in 4.5s'' @ suf) = None"
    and pl: "re_search playwright_re (pre @ ''12 passed, 3 failed, 1 error in 4.5s'' @ suf) = None"
  shows "\<exists>t. parse_test_results (pre @ ''12 passed, 3 failed, 1 error in 4.5s'' @ suf) ec = Inr t \<and>
           passed t = 12 \<and> failed t = 3 \<and> errors t = 1 \<and> duration t = 45 / 10"
proof -
  define out where "out = pre @ ''12 passed, 3 failed, 1 error in 4.5s'' @ suf"
  let ?v = "\<lparr>c_passed = 12, c_failed = 3, c_errors = 1, c_skipped = 0, c_duration = 9 / 2\<rparr>"
  have 1: "parse_pytest out
             \<lparr>c_passed = 0, c_failed = 0, c_errors = 0, c_skipped = 0, c_duration = 0\<rparr> = Inr ?v"
    unfolding parse_pytest_def out_def pytest_found [OF py]
    by (simp add: group_def summary_conversions)
  have 2: "parse_jest out ?v = ?v"
    unfolding parse_jest_def out_def je by simp
  have 3: "parse_playwright out ?v = Inr ?v"
    unfolding parse_playwright_def out_def pl by simp
  have 4: "parse_failed_again out ?v = ?v"
    unfolding parse_failed_again_def out_def failed_found [OF fl]
    by (simp add: group_def summary_conversions)
  have "parse_counts out ec = Inr ?v"
    by (simp add: parse_counts_def 1 2 3 4 exit_code_fallback_def)
  then have "\<exists>t. parse_test_results out ec = Inr t \<and>
           passed t = 12 \<and> failed t = 3 \<and> errors t = 1 \<and> duration t = 45 / 10"
    by (simp add: parse_test_results_def mk_TestResult_def)
  then show ?thesis unfolding out_def .
qed

text \<open>
  Two inputs with digits around the text: a pytest run that reports the number of
  collected items on an earlier line, and a line with a version number and a
  percentage before the text and a count after it.
\<close>

theorem summary_line_parsed_witness:
  "(\<exists>t. parse_test_results
          ((''collected 16 items'' @ CHR 0x0A # ''==== '') @
             ''12 passed, 3 failed, 1 error in 4.5s'' @ '' ===='') 1 = Inr t \<and>
        passed t = 12 \<and> failed t = 3 \<and> errors t = 1 \<and> duration t = 45 / 10) \<and>
   (\<exists>t. parse_test_results
          (''python 3.11 [100%] '' @
             ''12 passed, 3 failed, 1 error in 4.5s'' @ '' in 2 files'') 0 = Inr t \<and>
        passed t = 12 \<and> failed t = 3 \<and> errors t = 1 \<and> duration t = 45 / 10)"
proof (rule conjI)
  show "\<exists>t. parse_test_results
          ((''collected 16 items'' @ CHR 0x0A # ''==== '') @
             ''12 passed, 3 failed, 1 error in 4.5s'' @ '' ===='') 1 = Inr t \<and>
        passed t = 12 \<and> failed t = 3 \<and> errors t = 1 \<and> duration t = 45 / 10"
    by (rule summary_line_parsed) code_simp+
  show "\<exists>t. parse_test_results
          (''python 3.11 [100%] '' @
             ''12 passed, 3 failed, 1 error in 4.5s'' @ '' in 2 files'') 0 = Inr t \<and>
        passed t = 12 \<and> failed t = 3 \<and> errors t = 1 \<and> duration t = 45 / 10"
    by (rule summary_line_parsed) code_simp+
qed

text \<open>
  The claim as stated fails, the text being in each of these inputs: an earlier line
  that reports one failure gives failed = 1; an earlier count of passed tests on the
  same line gives passed = 2; a Jest summary on a later line gives passed = 5; a
  parenthesised time after the text gives duration = 10.
\<close>

theorem summary_line_counterexample:
  "parse_test_results
     ((''test_a.py: 1 failed'' @ CHR 0x0A # ''==== '') @
        ''12 passed, 3 failed, 1 error in 4.5s'' @ '' ===='') 1
     = Inr (mk_TestResult 12 1 1 0 (45 / 10) None 1 None None) \<and>
   parse_test_results
     (''2 passed, 1 skipped; '' @ ''12 passed, 3 failed, 1 error in 4.5s'') 1
     = Inr (mk_TestResult 2 3 1 0 (45 / 10) None 1 None None) \<and>
   parse_test_results
     (''12 passed, 3 failed, 1 error in 4.5s'' @
        CHR 0x0A # ''Tests: 5 passed, 2 failed, 7 total'') 1
     = Inr (mk_TestResult 5 3 1 0 (45 / 10) None 1 None None) \<and>
   parse_test_results (''12 passed, 3 failed, 1 error in 4.5s'' @ '' (10s)'') 1
     = Inr (mk_TestResult 12 3 1 0 10 None 1 None None)"
  by code_simp

text \<open>
  Each of these four inputs breaks one of the four conditions and meets the other
  three, so none of the conditions can be dropped.
\<close>

lemma each_condition_needed:
  "\<not> starts_within pytest_re (''test_a.py: 1 failed'' @ CHR 0x0A # ''==== '')
       (''12 passed, 3 failed, 1 error in 4.5s'' @ '' ===='') \<and>
   starts_within failed_re (''test_a.py: 1 failed'' @ CHR 0x0A # ''==== '')
       (''12 passed, 3 failed, 1 error in 4.5s'' @ '' ===='') \<and>
   re_search jest_re ((''test_a.py: 1 failed'' @ CHR 0x0A # ''==== '') @
       ''12 passed, 3 failed, 1 error in 4.5s'' @ '' ===='') = None \<and>
   re_search playwright_re ((''test_a.py: 1 failed'' @ CHR 0x0A # ''==== '') @
       ''12 passed, 3 failed, 1 error in 4.5s'' @ '' ===='') = None"
  "starts_within pytest_re ''2 passed, 1 skipped; ''
       ''12 passed, 3 failed, 1 error in 4.5s'' \<and>
   \<not> starts_within failed_re ''2 passed, 1 skipped; ''
       ''12 passed, 3 failed, 1 error in 4.5s'' \<and>
   re_search jest_re (''2 passed, 1 skipped; '' @
       ''12 passed, 3 failed, 1 error in 4.5s'') = None \<and>
   re_search playwright_re (''2 passed, 1 skipped; '' @
       ''12 passed, 3 failed, 1 error in 4.5s'') = None"
  "re_search jest_re (''12 passed, 3 failed, 1 error in 4.5s'' @
       CHR 0x0A # ''Tests: 5 passed, 2 failed, 7 total'') \<noteq> None \<and>
   re_search playwright_re (''12 passed, 3 failed, 1 error in 4.5s'' @
       CHR 0x0A # ''Tests: 5 passed, 2 failed, 7 total'') = None"
  "re_search jest_re (''12 passed, 3 failed, 1 error in 4.5s'' @ '' (10s)'') = None \<and>
   re_search playwright_re (''12 passed, 3 failed, 1 error in 4.5s'' @ '' (10s)'') \<noteq> None"
  by code_simp+

section \<open>The exit-code fallback\<close>

text \<open>
  C3 at a concrete input. The output "Something went wrong" matches no pattern; with exit
  code 1 the parser returns failed = 1 and passed = 0, but \<open>parsed_from\<close> is \<open>None\<close>,
  not "fallback", and the verdict of the result is FAIL.
\<close>

theorem fallback_result_unmarked:
  "parse_test_results ''Something went wrong'' 1
     = Inr (mk_TestResult 0 1 0 0 0 None 1 None None) \<and>
   parsed_from (mk_TestResult 0 1 0 0 0 None 1 None None) = None \<and>
   test_verdict (mk_TestResult 0 1 0 0 0 None 1 None None) = FAIL \<and>
   parse_test_results ''All checks completed'' 0
     = Inr (mk_TestResult 1 0 0 0 0 None 0 None None)"
  by code_simp


section \<open>Sequence mode stops at the first failure\<close>

lemma attempted_Nil [simp]: "attempted [] = 0"
  by (simp add: attempted_def)

lemma attempted_Cons [simp]:
  "attempted (r # rs) = (if success r then Suc (attempted rs) else 1)"
  by (simp add: attempted_def Let_def)

lemma length_run_each [simp]: "length (run_each h t s cmds st) = length cmds"
  by (induction cmds arbitrary: st) (auto split: prod.splits)











section \<open>Timeouts\<close>

text \<open>A command that writes nothing, runs for \<open>d\<close> seconds and exits with \<open>rc\<close>.\<close>

definition sleeper :: "rat \<Rightarrow> int \<Rightarrow> process" where
  "sleeper d rc = \<lparr>p_output = [], p_closes_at = d, p_exits_at = d, p_returncode = rc\<rparr>"




text \<open>
  The streaming path is left out of the statement above. There the lines are read
  until the output is closed before the timeout is applied, so a command that keeps
  its output open until it exits is never timed out: \<open>execute\<close> returns the command's
  own exit code when the command ends, whatever the timeout, and kills nothing.
\<close>

lemma streaming_waits_for_output:
  "spawn cmd = Inr p \<Longrightarrow> dirs (working_dir ex) \<Longrightarrow> p_exits_at p \<le> p_closes_at p \<Longrightarrow>
     execute (subprocess_host dirs spawn) (Single cmd) timeout True (ex, w) =
       (\<lparr>er_exit_code = p_returncode p, er_stdout = concat (map snd (p_output p)),
         er_stderr = [], er_duration = p_closes_at p, er_command = cmd\<rparr>,
        ex\<lparr>output_buffer := map snd (p_output p)\<rparr>, w)"
  by (cases timeout)
     (auto simp: execute_def execute_single_def subprocess_host_def popen_streaming_def
        read_lines_def popen_wait_def Let_def max_def)

lemma streaming_overrun_undetected:
  "execute (subprocess_host (\<lambda>d. True) (\<lambda>c. Inr (sleeper 100 0))) (Single ''sleep 100'')
      (Some 60) True (\<lparr>working_dir = ''.'', output_buffer = []\<rparr>, []) =
     (\<lparr>er_exit_code = 0, er_stdout = [], er_stderr = [], er_duration = 100,
       er_command = ''sleep 100''\<rparr>, \<lparr>working_dir = ''.'', output_buffer = []\<rparr>, [])"
  by (simp add: sleeper_def execute_def execute_single_def subprocess_host_def
        popen_streaming_def read_lines_def popen_wait_def)

section \<open>Reproducibility of the run hash\<close>






















































section \<open>Finalizing twice, adding after finalizing\<close>

text \<open>
  C7. A second \<open>finalize\<close> returns without raising and changes nothing, the stored
  \<open>run_hash\<close> included; \<open>add_session\<close> on a finalized evaluation raises \<open>RuntimeError\<close>
  and leaves the sessions as they were.
\<close>

theorem finalize_idempotent:
  "finalize now2 (finalize now1 r) = finalize now1 r \<and>
   run_hash (metadata (finalize now2 (finalize now1 r))) = run_hash (metadata (finalize now1 r)) \<and>
   fst (add_session s (finalize now1 r))
     = Some (RuntimeError ''Cannot add session to finalized evaluation'') \<and>
   sessions (snd (add_session s (finalize now1 r))) = sessions (finalize now1 r)"
proof -
  have fin: "finalized (finalize now1 r)"
    by (simp add: finalize_def Let_def)
  then have "finalize now2 (finalize now1 r) = finalize now1 r"
    by (simp add: finalize_def [of now2])
  with fin show ?thesis by (simp add: add_session_def)
qed

section \<open>Configuration validation (systemeval/config.py)\<close>

text \<open>
  The environment configurations, one constructor per class of the union
  \<open>AnyEnvironmentConfig\<close>. Validation of the dependency graph reads the \<open>type\<close> tag and,
  of a composite environment, \<open>depends_on\<close>; the other fields are left out.
\<close>

datatype AnyEnvironmentConfig =
    StandaloneEnvConfig
  | DockerComposeEnvConfig
  | CompositeEnvConfig (depends_on: "string list")
  | NgrokEnvConfig
  | BrowserEnvConfig

fun type_tag :: "AnyEnvironmentConfig \<Rightarrow> string" where
  "type_tag StandaloneEnvConfig = ''standalone''"
| "type_tag DockerComposeEnvConfig = ''docker-compose''"
| "type_tag (CompositeEnvConfig deps) = ''composite''"
| "type_tag NgrokEnvConfig = ''ngrok''"
| "type_tag BrowserEnvConfig = ''browser''"

text \<open>
  \<open>SystemEvalConfig.environments\<close> is a dictionary; its items are kept in insertion
  order, which is the order the validator visits them in.
\<close>

type_synonym environments = "(string \<times> AnyEnvironmentConfig) list"

text \<open>The inner loop: the first dependency that is not a key raises.\<close>

fun check_deps :: "string \<Rightarrow> string list \<Rightarrow> environments \<Rightarrow> py_error option" where
  "check_deps name [] envs = None"
| "check_deps name (dep # deps) envs =
     (if dep \<notin> set (map fst envs) then
        Some (ValueError (''Environment '' @ [CHR 0x27] @ name @ [CHR 0x27] @ '' depends on ''
                @ [CHR 0x27] @ dep @ [CHR 0x27] @ '' which is not defined''))
      else check_deps name deps envs)"

text \<open>The outer loop over the items.\<close>

fun check_items :: "environments \<Rightarrow> environments \<Rightarrow> py_error option" where
  "check_items [] envs = None"
| "check_items ((name, env_config) # rest) envs =
     (if type_tag env_config = ''composite'' then
        (case env_config of
           CompositeEnvConfig deps \<Rightarrow>
             (case check_deps name deps envs of
                Some e \<Rightarrow> Some e
              | None \<Rightarrow> check_items rest envs)
         | _ \<Rightarrow> check_items rest envs)
      else check_items rest envs)"

text \<open>\<open>validate_composite_deps\<close>: raises, or returns the configuration unchanged.\<close>

definition validate_composite_deps :: "environments \<Rightarrow> py_error + environments" where
  "validate_composite_deps envs =
     (case check_items envs envs of Some e \<Rightarrow> Inl e | None \<Rightarrow> Inr envs)"

text \<open>The names an environment depends on, and the dependency relation of a set.\<close>

fun deps_of :: "AnyEnvironmentConfig \<Rightarrow> string list" where
  "deps_of (CompositeEnvConfig deps) = deps"
| "deps_of _ = []"

definition depends :: "environments \<Rightarrow> string \<Rightarrow> string \<Rightarrow> bool" where
  "depends envs a b = (\<exists>cfg. (a, cfg) \<in> set envs \<and> b \<in> set (deps_of cfg))"

section \<open>What validation rejects\<close>

lemma check_deps_None:
  "check_deps name deps envs = None \<longleftrightarrow> (\<forall>dep \<in> set deps. dep \<in> set (map fst envs))"
  by (induction deps) auto

lemma check_items_None:
  "check_items items envs = None \<longleftrightarrow>
     (\<forall>(name, cfg) \<in> set items. \<forall>dep \<in> set (deps_of cfg). dep \<in> set (map fst envs))"
proof (induction items)
  case Nil
  show ?case by simp
next
  case (Cons item items)
  obtain name cfg where item: "item = (name, cfg)" by (cases item)
  show ?case
  proof (cases cfg)
    case (CompositeEnvConfig deps)
    with item have "check_items (item # items) envs = None \<longleftrightarrow>
        check_deps name deps envs = None \<and> check_items items envs = None"
      by (cases "check_deps name deps envs") simp_all
    then show ?thesis
      unfolding Cons.IH check_deps_None using item CompositeEnvConfig by auto
  qed (use Cons item in auto)
qed

text \<open>
  C8, as amended. Validation accepts a set of environments exactly when every dependency
  named by a composite environment is a key of the set, and otherwise raises
  \<open>ValueError\<close>; whether the dependency graph has a cycle plays no part.
\<close>

theorem undefined_dependency_rejected:
  "(validate_composite_deps envs = Inr envs \<longleftrightarrow>
      (\<forall>a b. depends envs a b \<longrightarrow> b \<in> set (map fst envs))) \<and>
   ((\<exists>a b. depends envs a b \<and> b \<notin> set (map fst envs)) \<longrightarrow>
      (\<exists>msg. validate_composite_deps envs = Inl (ValueError msg)))"
proof -
  have iff: "check_items envs envs = None \<longleftrightarrow>
      (\<forall>a b. depends envs a b \<longrightarrow> b \<in> set (map fst envs))"
    unfolding check_items_None depends_def by fastforce
  have err: "\<exists>msg. e = ValueError msg" if "check_deps name deps envs' = Some e"
    for name deps envs' e
    using that by (induction deps) (auto split: if_splits)
  have err2: "\<exists>msg. e = ValueError msg" if "check_items items envs' = Some e"
    for items envs' e
    using that
  proof (induction items)
    case Nil
    then show ?case by simp
  next
    case (Cons item items)
    obtain name cfg where item: "item = (name, cfg)" by (cases item)
    show ?case
    proof (cases cfg)
      case (CompositeEnvConfig deps)
      with Cons item err show ?thesis
        by (cases "check_deps name deps envs'") auto
    qed (use Cons item in auto)
  qed
  show ?thesis
  proof (cases "check_items envs envs")
    case None
    with iff show ?thesis by (auto simp: validate_composite_deps_def)
  next
    case (Some e)
    with err2 obtain msg where "e = ValueError msg" by blast
    with Some iff show ?thesis by (auto simp: validate_composite_deps_def)
  qed
qed

theorem undefined_dependency_rejected_witness:
  "validate_composite_deps
     [(''backend'', DockerComposeEnvConfig), (''full'', CompositeEnvConfig [''backend'', ''missing''])]
     = Inl (ValueError ''Environment 'full' depends on 'missing' which is not defined'') \<and>
   validate_composite_deps
     [(''backend'', DockerComposeEnvConfig), (''full'', CompositeEnvConfig [''backend''])]
     = Inr [(''backend'', DockerComposeEnvConfig), (''full'', CompositeEnvConfig [''backend''])]"
proof -
  let ?bad = "[(''backend'', DockerComposeEnvConfig),
               (''full'', CompositeEnvConfig [''backend'', ''missing''])]"
  let ?good = "[(''backend'', DockerComposeEnvConfig), (''full'', CompositeEnvConfig [''backend''])]"
  have "depends ?bad ''full'' ''missing''"
    by (simp add: depends_def)
  then have "\<exists>a b. depends ?bad a b \<and> b \<notin> set (map fst ?bad)"
    by (intro exI [of _ "''full''"] exI [of _ "''missing''"]) simp
  with undefined_dependency_rejected [of ?bad]
  obtain msg where "validate_composite_deps ?bad = Inl (ValueError msg)" by blast
  then have "validate_composite_deps ?bad
      = Inl (ValueError ''Environment 'full' depends on 'missing' which is not defined'')"
    by (simp add: validate_composite_deps_def)
  moreover have "\<forall>a b. depends ?good a b \<longrightarrow> b \<in> set (map fst ?good)"
    by (auto simp: depends_def)
  with undefined_dependency_rejected [of ?good]
  have "validate_composite_deps ?good = Inr ?good" by blast
  ultimately show ?thesis by simp
qed

text \<open>
  The claim as stated fails: two composite environments that depend on each other, and
  one that depends on itself, pass validation.
\<close>

theorem cyclic_dependencies_counterexample:
  "depends [(''a'', CompositeEnvConfig [''b'']), (''b'', CompositeEnvConfig [''a''])] ''a'' ''b'' \<and>
   depends [(''a'', CompositeEnvConfig [''b'']), (''b'', CompositeEnvConfig [''a''])] ''b'' ''a'' \<and>
   validate_composite_deps [(''a'', CompositeEnvConfig [''b'']), (''b'', CompositeEnvConfig [''a''])]
     = Inr [(''a'', CompositeEnvConfig [''b'']), (''b'', CompositeEnvConfig [''a''])] \<and>
   validate_composite_deps [(''loop'', CompositeEnvConfig [''loop''])]
     = Inr [(''loop'', CompositeEnvConfig [''loop''])]"
  by (simp add: depends_def validate_composite_deps_def)

section \<open>Waiting for the browser environment (systemeval/environments/browser.py)\<close>

text \<open>
  A \<open>BrowserEnvironment\<close> holds an optional server and an optional tunnel, both
  environments of their own. What their \<open>is_ready\<close> and \<open>wait_ready\<close> do is an input of
  the model: each reads, and \<open>wait_ready\<close> may change, a world \<open>'w\<close>, in which
  \<open>time.time()\<close> is read off by \<open>clock\<close>.
\<close>

record 'w child_env =
  is_ready :: "'w \<Rightarrow> bool"
  wait_ready :: "int \<Rightarrow> 'w \<Rightarrow> bool \<times> 'w"

record 'w BrowserEnvironment =
  server :: "'w child_env option"
  tunnel :: "'w child_env option"
  clock :: "'w \<Rightarrow> rat"

text \<open>The calls that \<open>wait_ready\<close> delegates, with the timeout passed, in order.\<close>

datatype wait_call = ServerWait int | TunnelWait int

text \<open>\<open>int()\<close> of a float truncates towards zero.\<close>

definition py_trunc :: "rat \<Rightarrow> int" where
  "py_trunc x = (if 0 \<le> x then \<lfloor>x\<rfloor> else \<lceil>x\<rceil>)"

text \<open>\<open>BrowserEnvironment.is_ready\<close>\<close>

definition browser_is_ready :: "'w BrowserEnvironment \<Rightarrow> 'w \<Rightarrow> bool" where
  "browser_is_ready env w =
     ((case server env of Some s \<Rightarrow> is_ready s w | None \<Rightarrow> True) \<and>
      (case tunnel env of Some t \<Rightarrow> is_ready t w | None \<Rightarrow> True))"

text \<open>
  \<open>BrowserEnvironment.wait_ready\<close>. The result is the value returned, the value of
  \<open>timings.health_check\<close> if it was set, the delegated calls, and the world afterwards.
\<close>

definition browser_wait_ready ::
  "'w BrowserEnvironment \<Rightarrow> int \<Rightarrow> 'w \<Rightarrow> bool \<times> rat option \<times> wait_call list \<times> 'w" where
  "browser_wait_ready env timeout w =
     (let start = clock env w;
          remaining = (of_int timeout :: rat);
          after_server =
            (case server env of
               None \<Rightarrow> (True, remaining, [], w)
             | Some s \<Rightarrow>
                 (let server_start = clock env w;
                      (ok, w1) = wait_ready s (py_trunc remaining) w
                  in if \<not> ok then (False, remaining, [ServerWait (py_trunc remaining)], w1)
                     else (True, remaining - (clock env w1 - server_start),
                           [ServerWait (py_trunc remaining)], w1)))
      in case after_server of
           (False, _, calls, w1) \<Rightarrow> (False, None, calls, w1)
         | (True, remaining1, calls, w1) \<Rightarrow>
             (case tunnel env of
                Some t \<Rightarrow>
                  (if remaining1 > 0 then
                     (let (ok, w2) = wait_ready t (py_trunc remaining1) w1
                      in if \<not> ok then (False, None, calls @ [TunnelWait (py_trunc remaining1)], w2)
                         else (True, Some (clock env w2 - start),
                               calls @ [TunnelWait (py_trunc remaining1)], w2))
                   else (True, Some (clock env w1 - start), calls, w1))
              | None \<Rightarrow> (True, Some (clock env w1 - start), calls, w1)))"

text \<open>
  A world that is just the clock; a server that becomes ready after exactly the time it
  is given, and a tunnel that never becomes ready.
\<close>

definition slow_server :: "rat child_env" where
  "slow_server = \<lparr>is_ready = (\<lambda>w. True), wait_ready = (\<lambda>t w. (True, w + of_int t))\<rparr>"

definition dead_tunnel :: "rat child_env" where
  "dead_tunnel = \<lparr>is_ready = (\<lambda>w. False), wait_ready = (\<lambda>t w. (False, w + of_int t))\<rparr>"

definition stuck_browser :: "rat BrowserEnvironment" where
  "stuck_browser = \<lparr>server = Some slow_server, tunnel = Some dead_tunnel, clock = (\<lambda>w. w)\<rparr>"

section \<open>The tunnel is skipped when the server used up the budget\<close>

lemma py_trunc_of_int [simp]: "py_trunc (of_int n) = n"
  by (simp add: py_trunc_def)

text \<open>
  C10. The server is waited on first, with the whole timeout. If it becomes ready, the
  tunnel is waited on with what remains of the timeout, truncated to an integer, when
  something remains; when nothing remains, \<open>wait_ready\<close> returns true with the server's
  call as its only call, whatever the tunnel would answer.
\<close>

theorem tunnel_skipped_without_budget:
  assumes srv: "server env = Some s" and tun: "tunnel env = Some t"
    and ok: "wait_ready s timeout w = (True, w1)"
  shows "(clock env w1 - clock env w \<ge> of_int timeout \<longrightarrow>
            browser_wait_ready env timeout w
              = (True, Some (clock env w1 - clock env w), [ServerWait timeout], w1)) \<and>
         (clock env w1 - clock env w < of_int timeout \<longrightarrow>
            browser_wait_ready env timeout w =
              (let left = py_trunc (of_int timeout - (clock env w1 - clock env w));
                   (ok2, w2) = wait_ready t left w1
               in (ok2, if ok2 then Some (clock env w2 - clock env w) else None,
                   [ServerWait timeout, TunnelWait left], w2)))"
proof (intro conjI impI)
  assume "clock env w1 - clock env w \<ge> of_int timeout"
  then have "\<not> of_int timeout - (clock env w1 - clock env w) > 0" by simp
  then show "browser_wait_ready env timeout w
      = (True, Some (clock env w1 - clock env w), [ServerWait timeout], w1)"
    by (simp add: browser_wait_ready_def srv tun ok Let_def)
next
  assume "clock env w1 - clock env w < of_int timeout"
  then have pos: "of_int timeout - (clock env w1 - clock env w) > 0" by simp
  obtain ok2 w2 where t: "wait_ready t (py_trunc (of_int timeout - (clock env w1 - clock env w))) w1
      = (ok2, w2)"
    by (cases "wait_ready t (py_trunc (of_int timeout - (clock env w1 - clock env w))) w1")
  from pos show "browser_wait_ready env timeout w =
      (let left = py_trunc (of_int timeout - (clock env w1 - clock env w));
           (ok2, w2) = wait_ready t left w1
       in (ok2, if ok2 then Some (clock env w2 - clock env w) else None,
           [ServerWait timeout, TunnelWait left], w2))"
    by (simp add: browser_wait_ready_def srv tun ok Let_def t)
qed

theorem tunnel_skipped_without_budget_witness:
  "browser_wait_ready stuck_browser 120 0 = (True, Some 120, [ServerWait 120], 120) \<and>
   \<not> browser_is_ready stuck_browser 120 \<and>
   tunnel stuck_browser = Some dead_tunnel \<and> \<not> is_ready dead_tunnel 120"
proof -
  have "browser_wait_ready stuck_browser 120 0 = (True, Some 120, [ServerWait 120], 120)"
    using tunnel_skipped_without_budget [of stuck_browser slow_server dead_tunnel 120 0 120]
    by (simp add: stuck_browser_def slow_server_def)
  then show ?thesis
    by (simp add: browser_is_ready_def stuck_browser_def dead_tunnel_def slow_server_def)
qed

end
